theory Spec2Isabelle
  imports Complex_Main "HOL-Library.Sublist"
begin

section \<open>Python values, exceptions and the external libraries\<close>

text \<open>
  The notebook \<^verbatim>\<open>encoder-decoder.ipynb\<close> is glue around pandas, torch, transformers,
  datasets and sacrebleu. None of that code is in the repository, so the libraries are a
  parameter of the model: a record \<open>lib\<close> of functions. Every library call may raise and may
  change the outside world (files read, model weights updated, random numbers drawn by the
  ROUGE aggregator), so each entry takes a world \<open>'w\<close> and gives back a result or an
  exception, with the new world. Library objects (data frames, series, cell values,
  tokenizer, model, datasets, trainer, prediction arrays) are opaque values of type \<open>'o\<close>.

  The numbers the metric libraries return are objects too: Python floats and
  \<^verbatim>\<open>numpy.float64\<close> values. Their arithmetic is binary floating point, rounded after every
  operation, and \<^verbatim>\<open>x * 100\<close> and \<^verbatim>\<open>round(x, 4)\<close> are calls of the methods
  \<^verbatim>\<open>__mul__\<close> and \<^verbatim>\<open>__round__\<close> of the type of \<open>x\<close>. So the two operations are
  entries of \<open>lib\<close> as well, \<open>num_mul\<close> and \<open>num_round\<close>: nothing is computed in exact
  arithmetic. On numbers they neither raise nor touch the world.
\<close>

datatype exn = NameError string | KeyError string | OtherError string

text \<open>The literals of the notebook. A float literal is kept as written, mantissa and decimal
  exponent: \<^verbatim>\<open>2e-5\<close> is \<open>PyFloat 2 (- 5)\<close> and \<^verbatim>\<open>0.01\<close> is \<open>PyFloat 1 (- 2)\<close>.\<close>

datatype pyval = PyStr string | PyInt int | PyFloat int int | PyBool bool

type_synonym 'a dict = "string \<rightharpoonup> 'a"

type_synonym ('w, 'a) io = "'w \<Rightarrow> (exn + 'a) \<times> 'w"

text \<open>A \<^verbatim>\<open>BatchEncoding\<close>: a dictionary from field names to one list of ids per text.\<close>

type_synonym encoding = "int list list dict"

type_synonym 'o metrics = "'o dict"

text \<open>\<^verbatim>\<open>rouge_score.scoring.Score\<close> and \<^verbatim>\<open>AggregateScore\<close>; of sacrebleu's
  \<^verbatim>\<open>BLEUScore\<close> only the attribute the notebook reads.\<close>

record 'o rouge_score =
  precision :: 'o
  recall :: 'o
  fmeasure :: 'o

record 'o aggregate_score =
  low :: "'o rouge_score"
  mid :: "'o rouge_score"
  high :: "'o rouge_score"

record 'o bleu_score =
  score :: 'o

record ('o, 'w) lib =
  pip_install :: "string \<Rightarrow> 'w \<Rightarrow> 'w"
  import_module :: "string \<Rightarrow> ('w, unit) io"
  import_from :: "string \<Rightarrow> string list \<Rightarrow> ('w, unit) io"
  cuda_is_available :: "('w, bool) io"
  torch_device :: "string \<Rightarrow> ('w, 'o) io"
  read_csv :: "string \<Rightarrow> ('w, 'o) io"
  frame_getitem :: "'o \<Rightarrow> string \<Rightarrow> ('w, 'o) io"
  series_tolist :: "'o \<Rightarrow> ('w, 'o list) io"
  tokenizer_from_pretrained :: "string \<Rightarrow> ('w, 'o) io"
  tokenizer_call :: "'o \<Rightarrow> 'o list \<Rightarrow> nat \<Rightarrow> bool \<Rightarrow> string \<Rightarrow> ('w, encoding) io"
  batch_decode :: "'o \<Rightarrow> 'o \<Rightarrow> bool \<Rightarrow> ('w, string list) io"
  dataset_from_dict :: "'o list dict \<Rightarrow> ('w, 'o) io"
  dataset_map :: "'o \<Rightarrow> ('o list dict \<Rightarrow> ('w, encoding) io) \<Rightarrow> bool \<Rightarrow> ('w, 'o) io"
  model_from_pretrained :: "string \<Rightarrow> ('w, 'o) io"
  model_to :: "'o \<Rightarrow> 'o \<Rightarrow> ('w, 'o) io"
  seq2seq_training_arguments :: "(string \<times> pyval) list \<Rightarrow> ('w, 'o) io"
  data_collator_for_seq2seq :: "'o \<Rightarrow> 'o \<Rightarrow> ('w, 'o) io"
  load_metric :: "string \<Rightarrow> ('w, 'o) io"
  rouge_compute ::
    "'o \<Rightarrow> string list \<Rightarrow> string list \<Rightarrow> bool \<Rightarrow> ('w, 'o aggregate_score dict) io"
  corpus_bleu :: "string list \<Rightarrow> string list list \<Rightarrow> ('w, 'o bleu_score) io"
  num_mul :: "'o \<Rightarrow> int \<Rightarrow> 'o"
  num_round :: "'o \<Rightarrow> int \<Rightarrow> 'o"
  seq2seq_trainer ::
    "'o \<Rightarrow> 'o \<Rightarrow> 'o \<Rightarrow> 'o \<Rightarrow> 'o \<Rightarrow> 'o \<Rightarrow> ('o \<times> 'o \<Rightarrow> ('w, 'o metrics) io) \<Rightarrow> ('w, 'o) io"
  trainer_train :: "'o \<Rightarrow> ('o \<times> 'o \<Rightarrow> ('w, 'o metrics) io) \<Rightarrow> ('w, 'o) io"
  trainer_evaluate :: "'o \<Rightarrow> ('o \<times> 'o \<Rightarrow> ('w, 'o metrics) io) \<Rightarrow> 'o \<Rightarrow> ('w, 'o metrics) io"

section \<open>The two functions the notebook defines\<close>

text \<open>
  \<^verbatim>\<open>
  def preprocess_function(examples):
      inputs = tokenizer(examples['transcription'], max_length=512, truncation=True, padding="max_length")
      outputs = tokenizer(examples['description'], max_length=128, truncation=True, padding="max_length")
      inputs['labels'] = outputs['input_ids']
      return inputs
  \<close>
  \<open>tokenizer\<close> is a global of the notebook, looked up when the function runs: the model
  takes the binding (\<open>None\<close> when the name is unbound) as \<open>tokenizer_g\<close>.
\<close>

definition preprocess_function ::
  "('o, 'w) lib \<Rightarrow> 'o option \<Rightarrow> 'o list dict \<Rightarrow> ('w, encoding) io" where
  "preprocess_function L tokenizer_g examples w =
    (case tokenizer_g of
      None \<Rightarrow> (Inl (NameError ''tokenizer''), w)
    | Some tok \<Rightarrow>
    (case examples ''transcription'' of
      None \<Rightarrow> (Inl (KeyError ''transcription''), w)
    | Some transcriptions \<Rightarrow>
    (case tokenizer_call L tok transcriptions 512 True ''max_length'' w of
      (Inl e, w1) \<Rightarrow> (Inl e, w1)
    | (Inr inputs, w1) \<Rightarrow>
    (case examples ''description'' of
      None \<Rightarrow> (Inl (KeyError ''description''), w1)
    | Some descriptions \<Rightarrow>
    (case tokenizer_call L tok descriptions 128 True ''max_length'' w1 of
      (Inl e, w2) \<Rightarrow> (Inl e, w2)
    | (Inr outputs, w2) \<Rightarrow>
    (case outputs ''input_ids'' of
      None \<Rightarrow> (Inl (KeyError ''input_ids''), w2)
    | Some ids \<Rightarrow> (Inr (inputs(''labels'' \<mapsto> ids)), w2)))))))"

text \<open>
  \<^verbatim>\<open>
  def compute_metrics(eval_pred):
      predictions, labels = eval_pred
      decoded_preds = tokenizer.batch_decode(predictions, skip_special_tokens=True)
      decoded_labels = tokenizer.batch_decode(labels, skip_special_tokens=True)
      rouge_result = rouge_metric.compute(predictions=decoded_preds, references=decoded_labels, use_stemmer=True)
      rouge_result = {key: value.mid.fmeasure * 100 for key, value in rouge_result.items()}
      bleu = sacrebleu.corpus_bleu(decoded_preds, [decoded_labels])
      bleu_result = {"bleu": bleu.score}
      result = {**rouge_result, **bleu_result}
      return {k: round(v, 4) for k, v in result.items()}
  \<close>
  The globals \<open>tokenizer\<close> and \<open>rouge_metric\<close> are again passed as their bindings, and
  \<open>sacrebleu_g\<close> tells whether the module name \<open>sacrebleu\<close> is bound. A dictionary
  comprehension keeps the keys and acts on the values; \<open>{**a, **b}\<close> is \<open>a ++ b\<close>, where
  \<open>b\<close> wins on a common key. \<^verbatim>\<open>round\<close> is a builtin and is always bound.
\<close>

definition compute_metrics ::
  "('o, 'w) lib \<Rightarrow> 'o option \<Rightarrow> 'o option \<Rightarrow> bool \<Rightarrow> 'o \<times> 'o \<Rightarrow> ('w, 'o metrics) io" where
  "compute_metrics L tokenizer_g rouge_metric_g sacrebleu_g eval_pred w =
    (case eval_pred of (predictions, labels) \<Rightarrow>
    (case tokenizer_g of
      None \<Rightarrow> (Inl (NameError ''tokenizer''), w)
    | Some tok \<Rightarrow>
    (case batch_decode L tok predictions True w of
      (Inl e, w1) \<Rightarrow> (Inl e, w1)
    | (Inr decoded_preds, w1) \<Rightarrow>
    (case batch_decode L tok labels True w1 of
      (Inl e, w2) \<Rightarrow> (Inl e, w2)
    | (Inr decoded_labels, w2) \<Rightarrow>
    (case rouge_metric_g of
      None \<Rightarrow> (Inl (NameError ''rouge_metric''), w2)
    | Some rm \<Rightarrow>
    (case rouge_compute L rm decoded_preds decoded_labels True w2 of
      (Inl e, w3) \<Rightarrow> (Inl e, w3)
    | (Inr rouge_raw, w3) \<Rightarrow>
    (let rouge_result = (\<lambda>key. map_option (\<lambda>v. num_mul L (fmeasure (mid v)) 100) (rouge_raw key))
     in
    (if \<not> sacrebleu_g then (Inl (NameError ''sacrebleu''), w3)
     else
    (case corpus_bleu L decoded_preds [decoded_labels] w3 of
      (Inl e, w4) \<Rightarrow> (Inl e, w4)
    | (Inr bleu, w4) \<Rightarrow>
    (let bleu_result = [''bleu'' \<mapsto> score bleu];
         result = rouge_result ++ bleu_result
     in (Inr (\<lambda>k. map_option (\<lambda>v. num_round L v 4) (result k)), w4)))))))))))"

section \<open>The notebook kernel\<close>

text \<open>
  Every call the notebook makes into a library is logged with its arguments and with what
  it gave back, in order.
\<close>

datatype op =
    PipInstall string
  | Import string
  | ImportFrom string "string list"
  | CudaIsAvailable
  | TorchDevice
  | ReadCsv string
  | FrameGetItem string
  | SeriesToList
  | TokenizerFromPretrained string
  | DatasetFromDict "string list"
  | DatasetMap bool
  | ModelFromPretrained string
  | ModelTo
  | Seq2SeqTrainingArguments "(string \<times> pyval) list"
  | DataCollatorForSeq2Seq
  | LoadMetric string
  | Seq2SeqTrainer
  | Train
  | Evaluate

text \<open>
  An entry of the log: the operation with the literals written in the notebook, the values
  passed to it in the order the notebook writes them, and the value returned or the
  exception raised.
\<close>

datatype ('o, 'w) arg =
    Obj 'o
  | Objs "'o list"
  | Str string
  | Preprocess_fn "'o list dict \<Rightarrow> ('w, encoding) io"
  | Metrics_fn "'o \<times> 'o \<Rightarrow> ('w, 'o metrics) io"

datatype 'o ret = RNone | RBool bool | RObj 'o | RList "'o list" | RMetrics "'o metrics"

datatype ('o, 'w) entry =
  Entry (op: op) (args: "('o, 'w) arg list") (outcome: "exn + 'o ret")

text \<open>
  The kernel: the outside world, the log, what was printed, and the global namespace.
  A variable the notebook assigns has a field of its own (\<open>None\<close>: not bound yet). The
  names bound by \<^verbatim>\<open>import\<close> and \<^verbatim>\<open>def\<close> stand for modules, classes and functions
  that the model has as \<open>lib\<close> and as the two functions above, so for them the kernel keeps
  only the list of names bound so far, \<open>defined\<close>.
\<close>

record ('o, 'w) kernel =
  world :: 'w
  calls :: "('o, 'w) entry list"
  stdout :: "'o metrics list"
  defined :: "string list"
  device :: "'o option"
  train_df :: "'o option"
  val_df :: "'o option"
  test_df :: "'o option"
  train_transcriptions :: "'o list option"
  train_descriptions :: "'o list option"
  val_transcriptions :: "'o list option"
  val_descriptions :: "'o list option"
  test_transcriptions :: "'o list option"
  test_descriptions :: "'o list option"
  tokenizer :: "'o option"
  train_data :: "'o option"
  val_data :: "'o option"
  test_data :: "'o option"
  dataset :: "'o dict option"
  model :: "'o option"
  training_args :: "'o option"
  data_collator :: "'o option"
  rouge_metric :: "'o option"
  trainer :: "'o option"
  results :: "'o metrics option"

type_synonym ('o, 'w, 'a) py = "('o, 'w) kernel \<Rightarrow> (exn + 'a) \<times> ('o, 'w) kernel"

definition py_bind :: "('o, 'w, 'a) py \<Rightarrow> ('a \<Rightarrow> ('o, 'w, 'b) py) \<Rightarrow> ('o, 'w, 'b) py" where
  "py_bind m f k = (case m k of (Inl e, k') \<Rightarrow> (Inl e, k') | (Inr v, k') \<Rightarrow> f v k')"

definition invoke ::
  "op \<Rightarrow> ('o, 'w) arg list \<Rightarrow> ('a \<Rightarrow> 'o ret) \<Rightarrow> ('w, 'a) io \<Rightarrow> ('o, 'w, 'a) py" where
  "invoke c xs as_ret f k =
    (case f (world k) of (r, w') \<Rightarrow>
      (r, k\<lparr>world := w', calls := calls k @ [Entry c xs (map_sum id as_ret r)]\<rparr>))"

text \<open>Reading a variable, and reading a name bound by \<^verbatim>\<open>import\<close> or \<^verbatim>\<open>def\<close>.\<close>

definition load_name :: "string \<Rightarrow> (('o, 'w) kernel \<Rightarrow> 'a option) \<Rightarrow> ('o, 'w, 'a) py" where
  "load_name x var k = (case var k of None \<Rightarrow> (Inl (NameError x), k) | Some v \<Rightarrow> (Inr v, k))"



definition store :: "(('o, 'w) kernel \<Rightarrow> ('o, 'w) kernel) \<Rightarrow> ('o, 'w, unit) py" where
  "store upd k = (Inr (), upd k)"


text \<open>The binding of a global, for a function that looks the name up only when it is called.\<close>

definition binding :: "(('o, 'w) kernel \<Rightarrow> 'a option) \<Rightarrow> ('o, 'w, 'a option) py" where
  "binding var k = (Inr (var k), k)"

definition is_defined :: "string \<Rightarrow> ('o, 'w, bool) py" where
  "is_defined x k = (Inr (x \<in> set (defined k)), k)"


section \<open>The cells of the notebook\<close>

subsection \<open>Cell 1: the shell escapes\<close>



subsection \<open>Cell 2: imports, device, CSV files and their columns\<close>







subsection \<open>Cell 3: tokenizer and datasets\<close>







subsection \<open>Cell 4: model, training arguments, data collator\<close>



text \<open>
  \<^verbatim>\<open>
  training_args = Seq2SeqTrainingArguments(
      output_dir='./results',
      evaluation_strategy='epoch',
      learning_rate=2e-5,
      per_device_train_batch_size=2,
      per_device_eval_batch_size=2,
      weight_decay=0.01,
      save_total_limit=3,
      num_train_epochs=3,
      predict_with_generate=True,
      logging_dir='./logs',
  )
  \<close>
\<close>

definition training_kwargs :: "(string \<times> pyval) list" where
  "training_kwargs =
    [(''output_dir'', PyStr ''./results''),
     (''evaluation_strategy'', PyStr ''epoch''),
     (''learning_rate'', PyFloat 2 (- 5)),
     (''per_device_train_batch_size'', PyInt 2),
     (''per_device_eval_batch_size'', PyInt 2),
     (''weight_decay'', PyFloat 1 (- 2)),
     (''save_total_limit'', PyInt 3),
     (''num_train_epochs'', PyInt 3),
     (''predict_with_generate'', PyBool True),
     (''logging_dir'', PyStr ''./logs'')]"




subsection \<open>Cell 5: metric, trainer, training\<close>



text \<open>\<^verbatim>\<open>trainer.train()\<close>: the value is not assigned.\<close>

definition train :: "('o, 'w) lib \<Rightarrow> ('o, 'w, unit) py" where
  "train L =
    py_bind (load_name ''trainer'' trainer) (\<lambda>t.
    py_bind (binding tokenizer) (\<lambda>tokenizer_g.
    py_bind (binding rouge_metric) (\<lambda>rouge_metric_g.
    py_bind (is_defined ''sacrebleu'') (\<lambda>sacrebleu_g.
    py_bind (invoke Train [Obj t] RObj
               (trainer_train L t (compute_metrics L tokenizer_g rouge_metric_g sacrebleu_g))) (\<lambda>_.
    store (\<lambda>k. k))))))"


subsection \<open>Cell 6: evaluation on the test split\<close>




subsection \<open>Running the notebook\<close>




section \<open>The log of a run against the script of the notebook\<close>

text \<open>
  What call number \<open>j\<close> of a log returned, if the log has that call and it did not raise.
  Calls are numbered from 0.
\<close>

definition returned :: "('o, 'w) entry list \<Rightarrow> nat \<Rightarrow> 'o ret option" where
  "returned tr j =
    (if j < length tr then (case outcome (tr ! j) of Inl _ \<Rightarrow> None | Inr v \<Rightarrow> Some v) else None)"

text \<open>
  Where an argument of a call comes from: the object or the list that an earlier call
  returned, the device name chosen from the answer of \<open>torch.cuda.is_available()\<close>, or
  one of the two functions of the notebook with its globals bound to the results of earlier
  calls.
\<close>

datatype src = Result nat | ResultList nat | DeviceName nat | PreprocessFn nat | ComputeMetricsFn nat nat

fun resolve :: "('o, 'w) lib \<Rightarrow> ('o, 'w) entry list \<Rightarrow> src \<Rightarrow> ('o, 'w) arg option" where
  "resolve L tr (Result j) =
    (case returned tr j of Some (RObj v) \<Rightarrow> Some (Obj v) | _ \<Rightarrow> None)"
| "resolve L tr (ResultList j) =
    (case returned tr j of Some (RList vs) \<Rightarrow> Some (Objs vs) | _ \<Rightarrow> None)"
| "resolve L tr (DeviceName j) =
    (case returned tr j of
      Some (RBool available) \<Rightarrow> Some (Str (if available then ''cuda'' else ''cpu''))
    | _ \<Rightarrow> None)"
| "resolve L tr (PreprocessFn j) =
    (case returned tr j of
      Some (RObj tok) \<Rightarrow> Some (Preprocess_fn (preprocess_function L (Some tok)))
    | _ \<Rightarrow> None)"
| "resolve L tr (ComputeMetricsFn i j) =
    (case (returned tr i, returned tr j) of
      (Some (RObj tok), Some (RObj rouge)) \<Rightarrow>
        Some (Metrics_fn (compute_metrics L (Some tok) (Some rouge) True))
    | _ \<Rightarrow> None)"

text \<open>
  The calls the notebook makes when its cells run from top to bottom, in the order of the
  source, each with the literals it is written with and the source of every argument. Call
  12, for instance, is \<^verbatim>\<open>pd.read_csv('preprocessed_data/train.csv')\<close>, and call 15 is
  \<^verbatim>\<open>train_df['transcription']\<close>, on the frame that call 12 returned.
\<close>

definition script :: "(op \<times> src list) list" where
  "script =
    [(PipInstall ''transformers'', []),
     (PipInstall ''rouge_score'', []),
     (PipInstall ''bert_score'', []),
     (PipInstall ''datasets'', []),
     (Import ''pandas'', []),
     (Import ''transformers'', []),
     (ImportFrom ''transformers''
        [''AutoModelForSeq2SeqLM'', ''AutoTokenizer'', ''Seq2SeqTrainingArguments'', ''Seq2SeqTrainer''], []),
     (Import ''torch'', []),
     (ImportFrom ''datasets'' [''load_metric'', ''Dataset'', ''DatasetDict''], []),
     (Import ''sacrebleu'', []),
     (CudaIsAvailable, []),
     (TorchDevice, [DeviceName 10]),
     (ReadCsv ''preprocessed_data/train.csv'', []),
     (ReadCsv ''preprocessed_data/val.csv'', []),
     (ReadCsv ''preprocessed_data/test.csv'', []),
     (FrameGetItem ''transcription'', [Result 12]),
     (SeriesToList, [Result 15]),
     (FrameGetItem ''description'', [Result 12]),
     (SeriesToList, [Result 17]),
     (FrameGetItem ''transcription'', [Result 13]),
     (SeriesToList, [Result 19]),
     (FrameGetItem ''description'', [Result 13]),
     (SeriesToList, [Result 21]),
     (FrameGetItem ''transcription'', [Result 14]),
     (SeriesToList, [Result 23]),
     (FrameGetItem ''description'', [Result 14]),
     (SeriesToList, [Result 25]),
     (TokenizerFromPretrained ''Falconsai/medical_summarization'', []),
     (DatasetFromDict [''transcription'', ''description''], [ResultList 16, ResultList 18]),
     (DatasetFromDict [''transcription'', ''description''], [ResultList 20, ResultList 22]),
     (DatasetFromDict [''transcription'', ''description''], [ResultList 24, ResultList 26]),
     (DatasetMap True, [Result 28, PreprocessFn 27]),
     (DatasetMap True, [Result 29, PreprocessFn 27]),
     (DatasetMap True, [Result 30, PreprocessFn 27]),
     (ModelFromPretrained ''Falconsai/medical_summarization'', []),
     (ModelTo, [Result 34, Result 11]),
     (Seq2SeqTrainingArguments training_kwargs, []),
     (DataCollatorForSeq2Seq, [Result 27, Result 34]),
     (LoadMetric ''rouge'', []),
     (Seq2SeqTrainer,
        [Result 34, Result 36, Result 31, Result 32, Result 27, Result 37, ComputeMetricsFn 27 38]),
     (Train, [Result 39]),
     (Evaluate, [Result 39, Result 33])]"


definition plan :: "('o, 'w) lib \<Rightarrow> ('o, 'w) entry list \<Rightarrow> (op \<times> ('o, 'w) arg option list) list" where
  "plan L tr = map (\<lambda>(c, srcs). (c, map (resolve L tr) srcs)) script"















section \<open>What is assumed of the libraries\<close>

text \<open>
  The tokenizer, called with \<open>truncation=True\<close> and \<open>padding="max_length"\<close>, gives one
  sequence of exactly \<open>max_length\<close> ids for every text, under the key \<open>input_ids\<close>.
\<close>

definition pads_to_max_length :: "('o, 'w) lib \<Rightarrow> bool" where
  "pads_to_max_length L =
    (\<forall>tok texts n w enc w'.
      tokenizer_call L tok texts n True ''max_length'' w = (Inr enc, w') \<longrightarrow>
      (\<exists>ids. enc ''input_ids'' = Some ids \<and> length ids = length texts \<and>
             list_all (\<lambda>x. length x = n) ids))"

text \<open>
  Numbers are read as reals by a valuation \<open>val\<close>. Rounding to four digits is monotone;
  it sends \<open>lo\<close>, at or below 0, to 0 and \<open>hi\<close>, at or above 100, to 100; and the product
  of a number between 0 and 1 with 100 lies between 0 and 100. Binary floating point has
  these properties though it computes no product and no rounding exactly, with \<open>hi\<close> any
  float slightly above 100 that still rounds to 100.
\<close>

definition rounds_onto_scale :: "('o, 'w) lib \<Rightarrow> ('o \<Rightarrow> real) \<Rightarrow> 'o \<Rightarrow> 'o \<Rightarrow> bool" where
  "rounds_onto_scale L val lo hi =
    (val lo \<le> 0 \<and> 100 \<le> val hi \<and>
     val (num_round L lo 4) = 0 \<and> val (num_round L hi 4) = 100 \<and>
     (\<forall>x y. val x \<le> val y \<longrightarrow> val (num_round L x 4) \<le> val (num_round L y 4)) \<and>
     (\<forall>x. 0 \<le> val x \<and> val x \<le> 1 \<longrightarrow>
        0 \<le> val (num_mul L x 100) \<and> val (num_mul L x 100) \<le> 100))"

text \<open>
  The ROUGE f-measures are fractions. The BLEU score is a percentage up to rounding
  errors of the library: it lies between \<open>lo\<close> and \<open>hi\<close>, so a score such as
  \<open>100.00000000000004\<close> is allowed.
\<close>

definition scores_in_range :: "('o, 'w) lib \<Rightarrow> ('o \<Rightarrow> real) \<Rightarrow> 'o \<Rightarrow> 'o \<Rightarrow> bool" where
  "scores_in_range L val lo hi =
    ((\<forall>m preds refs stem w raw w' key v.
        rouge_compute L m preds refs stem w = (Inr raw, w') \<longrightarrow> raw key = Some v \<longrightarrow>
        0 \<le> val (fmeasure (mid v)) \<and> val (fmeasure (mid v)) \<le> 1) \<and>
     (\<forall>preds refs w bleu w'.
        corpus_bleu L preds refs w = (Inr bleu, w') \<longrightarrow>
        val lo \<le> val (score bleu) \<and> val (score bleu) \<le> val hi))"

section \<open>A simulated library\<close>

text \<open>
  A library to run the notebook on: objects are names or numbers, the world counts the
  calls made, and the call number \<open>fail_at\<close>, if any, raises. Its numbers are exact reals,
  multiplied exactly and rounded to the nearest multiple of \<open>10 ^ - ndigits\<close>, ties to
  the even one.
\<close>

datatype obj = Name string | Number real

fun value_of :: "obj \<Rightarrow> real" where
  "value_of (Number x) = x"
| "value_of (Name s) = 0"

definition round_half_even :: "real \<Rightarrow> int" where
  "round_half_even x =
    (let f = \<lfloor>x\<rfloor>; d = x - of_int f
     in if d < 1 / 2 then f else if 1 / 2 < d then f + 1 else if even f then f else f + 1)"

definition decimal_round :: "real \<Rightarrow> int \<Rightarrow> real" where
  "decimal_round x ndigits =
    (if 0 \<le> ndigits
     then of_int (round_half_even (x * 10 ^ nat ndigits)) / 10 ^ nat ndigits
     else of_int (round_half_even (x / 10 ^ nat (- ndigits))) * 10 ^ nat (- ndigits))"

definition guard :: "nat option \<Rightarrow> (nat, 'a) io \<Rightarrow> (nat, 'a) io" where
  "guard fail_at f w = (if fail_at = Some w then (Inl (OtherError ''injected''), Suc w) else f w)"

definition sim_score :: "real \<Rightarrow> obj rouge_score" where
  "sim_score x = \<lparr>precision = Number x, recall = Number x, fmeasure = Number x\<rparr>"

definition sim_aggregate :: "real \<Rightarrow> obj aggregate_score" where
  "sim_aggregate x = \<lparr>low = sim_score x, mid = sim_score x, high = sim_score x\<rparr>"

definition sim_rouge :: "obj aggregate_score dict" where
  "sim_rouge =
    [''rouge1'' \<mapsto> sim_aggregate (1 / 3), ''rouge2'' \<mapsto> sim_aggregate 1,
     ''rougeL'' \<mapsto> sim_aggregate 0, ''rougeLsum'' \<mapsto> sim_aggregate (1 / 2)]"

definition sim_bleu :: real where
  "sim_bleu = 100 + 4 / 10 ^ 14"

definition sim_lib :: "nat option \<Rightarrow> (obj, nat) lib" where
  "sim_lib fail_at =
    \<lparr>pip_install = (\<lambda>name w. Suc w),
     import_module = (\<lambda>name. guard fail_at (\<lambda>w. (Inr (), Suc w))),
     import_from = (\<lambda>name names. guard fail_at (\<lambda>w. (Inr (), Suc w))),
     cuda_is_available = guard fail_at (\<lambda>w. (Inr False, Suc w)),
     torch_device = (\<lambda>name. guard fail_at (\<lambda>w. (Inr (Name name), Suc w))),
     read_csv = (\<lambda>path. guard fail_at (\<lambda>w. (Inr (Name path), Suc w))),
     frame_getitem = (\<lambda>df column. guard fail_at (\<lambda>w. (Inr (Name column), Suc w))),
     series_tolist = (\<lambda>series. guard fail_at (\<lambda>w. (Inr [Name ''a'', Name ''b''], Suc w))),
     tokenizer_from_pretrained = (\<lambda>name. guard fail_at (\<lambda>w. (Inr (Name ''tok''), Suc w))),
     tokenizer_call = (\<lambda>tok texts n truncation padding. guard fail_at (\<lambda>w.
       (Inr [''input_ids'' \<mapsto> map (\<lambda>_. replicate n 0) texts,
             ''attention_mask'' \<mapsto> map (\<lambda>_. replicate n 1) texts], Suc w))),
     batch_decode = (\<lambda>tok ids skip. guard fail_at (\<lambda>w. (Inr [''text''], Suc w))),
     dataset_from_dict = (\<lambda>d. guard fail_at (\<lambda>w. (Inr (Name ''data''), Suc w))),
     dataset_map = (\<lambda>d f batched. guard fail_at (\<lambda>w. (Inr (Name ''split''), Suc w))),
     model_from_pretrained = (\<lambda>name. guard fail_at (\<lambda>w. (Inr (Name ''model''), Suc w))),
     model_to = (\<lambda>m d. guard fail_at (\<lambda>w. (Inr m, Suc w))),
     seq2seq_training_arguments = (\<lambda>kwargs. guard fail_at (\<lambda>w. (Inr (Name ''args''), Suc w))),
     data_collator_for_seq2seq = (\<lambda>tok m. guard fail_at (\<lambda>w. (Inr (Name ''collator''), Suc w))),
     load_metric = (\<lambda>name. guard fail_at (\<lambda>w. (Inr (Name name), Suc w))),
     rouge_compute = (\<lambda>m preds refs stem. guard fail_at (\<lambda>w. (Inr sim_rouge, Suc w))),
     corpus_bleu = (\<lambda>preds refs. guard fail_at (\<lambda>w. (Inr \<lparr>score = Number sim_bleu\<rparr>, Suc w))),
     num_mul = (\<lambda>x n. Number (value_of x * of_int n)),
     num_round = (\<lambda>x n. Number (decimal_round (value_of x) n)),
     seq2seq_trainer = (\<lambda>m a tr va tok c f. guard fail_at (\<lambda>w. (Inr (Name ''trainer''), Suc w))),
     trainer_train = (\<lambda>t f. guard fail_at (\<lambda>w. (Inr (Name ''out''), Suc w))),
     trainer_evaluate = (\<lambda>t f d. guard fail_at (\<lambda>w.
       (case f (Name ''predictions'', Name ''labels'') (Suc w) of
          (Inl e, w') \<Rightarrow> (Inl e, w')
        | (Inr m, w') \<Rightarrow> (Inr m, w'))))\<rparr>"

definition sim_examples :: "obj list dict" where
  "sim_examples =
    [''transcription'' \<mapsto> [Name ''a'', Name ''b''], ''description'' \<mapsto> [Name ''c'', Name ''d'']]"

definition sim_encoding :: encoding where
  "sim_encoding =
    [''input_ids'' \<mapsto> [replicate 512 0, replicate 512 0],
     ''attention_mask'' \<mapsto> [replicate 512 1, replicate 512 1],
     ''labels'' \<mapsto> [replicate 128 0, replicate 128 0]]"

definition sim_metrics :: "obj metrics" where
  "sim_metrics =
    [''rouge1'' \<mapsto> Number (333333 / 10000), ''rouge2'' \<mapsto> Number 100,
     ''rougeL'' \<mapsto> Number 0, ''rougeLsum'' \<mapsto> Number 50, ''bleu'' \<mapsto> Number 100]"

section \<open>Runs of the notebook\<close>










section \<open>Proofs\<close>

subsection \<open>Every statement keeps the log conforming\<close>

lemma returned_Nil [simp]: "returned [] j = None"
  by (simp add: returned_def)





lemma length_script [simp]: "length script = 42"
  by (simp add: script_def)



lemma length_plan [simp]: "length (plan L tr) = 42"
  by (simp add: plan_def)




































































lemma sim_lib_sel:
  "pip_install (sim_lib fa) name = (\<lambda>w. Suc w)"
  "import_module (sim_lib fa) name = guard fa (\<lambda>w. (Inr (), Suc w))"
  "import_from (sim_lib fa) name names = guard fa (\<lambda>w. (Inr (), Suc w))"
  "cuda_is_available (sim_lib fa) = guard fa (\<lambda>w. (Inr False, Suc w))"
  "torch_device (sim_lib fa) name = guard fa (\<lambda>w. (Inr (Name name), Suc w))"
  "read_csv (sim_lib fa) path = guard fa (\<lambda>w. (Inr (Name path), Suc w))"
  "frame_getitem (sim_lib fa) df column = guard fa (\<lambda>w. (Inr (Name column), Suc w))"
  "series_tolist (sim_lib fa) series = guard fa (\<lambda>w. (Inr [Name ''a'', Name ''b''], Suc w))"
  "tokenizer_from_pretrained (sim_lib fa) name = guard fa (\<lambda>w. (Inr (Name ''tok''), Suc w))"
  "tokenizer_call (sim_lib fa) tok texts n truncation padding = guard fa (\<lambda>w.
       (Inr [''input_ids'' \<mapsto> map (\<lambda>_. replicate n 0) texts,
             ''attention_mask'' \<mapsto> map (\<lambda>_. replicate n 1) texts], Suc w))"
  "batch_decode (sim_lib fa) tok ids skip = guard fa (\<lambda>w. (Inr [''text''], Suc w))"
  "dataset_from_dict (sim_lib fa) dd = guard fa (\<lambda>w. (Inr (Name ''data''), Suc w))"
  "dataset_map (sim_lib fa) d pf batched = guard fa (\<lambda>w. (Inr (Name ''split''), Suc w))"
  "model_from_pretrained (sim_lib fa) name = guard fa (\<lambda>w. (Inr (Name ''model''), Suc w))"
  "model_to (sim_lib fa) m dv = guard fa (\<lambda>w. (Inr m, Suc w))"
  "seq2seq_training_arguments (sim_lib fa) kwargs = guard fa (\<lambda>w. (Inr (Name ''args''), Suc w))"
  "data_collator_for_seq2seq (sim_lib fa) tok m = guard fa (\<lambda>w. (Inr (Name ''collator''), Suc w))"
  "load_metric (sim_lib fa) name = guard fa (\<lambda>w. (Inr (Name name), Suc w))"
  "rouge_compute (sim_lib fa) rm preds refs stem = guard fa (\<lambda>w. (Inr sim_rouge, Suc w))"
  "corpus_bleu (sim_lib fa) preds refss = guard fa (\<lambda>w. (Inr \<lparr>score = Number sim_bleu\<rparr>, Suc w))"
  "num_mul (sim_lib fa) x factor = Number (value_of x * of_int factor)"
  "num_round (sim_lib fa) x ndigits = Number (decimal_round (value_of x) ndigits)"
  "seq2seq_trainer (sim_lib fa) m a tr va tok c mf = guard fa (\<lambda>w. (Inr (Name ''trainer''), Suc w))"
  "trainer_train (sim_lib fa) t mf = guard fa (\<lambda>w. (Inr (Name ''out''), Suc w))"
  "trainer_evaluate (sim_lib fa) t mf te = guard fa (\<lambda>w.
       (case mf (Name ''predictions'', Name ''labels'') (Suc w) of
          (Inl e, w') \<Rightarrow> (Inl e, w')
        | (Inr m, w') \<Rightarrow> (Inr m, w')))"
  by (simp_all add: sim_lib_def)

lemma guard_None: "guard None f = f"
  by (rule ext) (simp add: guard_def)

subsection \<open>preprocess_function\<close>

lemma preprocess_function_run:
  "(preprocess_function L tokenizer_g examples w = (Inr enc, w')) =
    (\<exists>tok transcriptions descriptions inputs w1 outputs labels.
      tokenizer_g = Some tok \<and>
      examples ''transcription'' = Some transcriptions \<and>
      examples ''description'' = Some descriptions \<and>
      tokenizer_call L tok transcriptions 512 True ''max_length'' w = (Inr inputs, w1) \<and>
      tokenizer_call L tok descriptions 128 True ''max_length'' w1 = (Inr outputs, w') \<and>
      outputs ''input_ids'' = Some labels \<and>
      enc = inputs(''labels'' \<mapsto> labels))"
  unfolding preprocess_function_def
  by (auto split: option.splits prod.splits sum.splits)

text \<open>
  Claim C7. \<open>preprocess_function\<close> returns an encoding exactly when the global
  \<open>tokenizer\<close> is bound, the batch has the columns \<open>transcription\<close> and \<open>description\<close>, and
  the two tokenizer calls return: the first on the transcriptions with \<open>max_length\<close> 512,
  the second on the descriptions with \<open>max_length\<close> 128, both with truncation and with
  padding \<open>max_length\<close>. The encoding returned is the first one with the field \<open>labels\<close>
  set to the field \<open>input_ids\<close> of the second. With a tokenizer that pads and truncates to
  \<open>max_length\<close> (\<open>pads_to_max_length\<close>) the function does return whenever the two calls do,
  and the encoding holds one input sequence of exactly 512 ids for every transcription and
  one label sequence of exactly 128 ids for every description.
\<close>

theorem preprocess_function_lengths:
  assumes "pads_to_max_length L"
  shows "((preprocess_function L tokenizer_g examples w = (Inr enc, w')) =
      (\<exists>tok transcriptions descriptions inputs w1 outputs labels.
        tokenizer_g = Some tok \<and>
        examples ''transcription'' = Some transcriptions \<and>
        examples ''description'' = Some descriptions \<and>
        tokenizer_call L tok transcriptions 512 True ''max_length'' w = (Inr inputs, w1) \<and>
        tokenizer_call L tok descriptions 128 True ''max_length'' w1 = (Inr outputs, w') \<and>
        outputs ''input_ids'' = Some labels \<and>
        enc = inputs(''labels'' \<mapsto> labels))) \<and>
    (\<forall>tok transcriptions descriptions inputs w1 outputs.
        tokenizer_g = Some tok \<and>
        examples ''transcription'' = Some transcriptions \<and>
        examples ''description'' = Some descriptions \<and>
        tokenizer_call L tok transcriptions 512 True ''max_length'' w = (Inr inputs, w1) \<and>
        tokenizer_call L tok descriptions 128 True ''max_length'' w1 = (Inr outputs, w') \<longrightarrow>
        (\<exists>input_ids labels.
          preprocess_function L tokenizer_g examples w = (Inr (inputs(''labels'' \<mapsto> labels)), w') \<and>
          outputs ''input_ids'' = Some labels \<and>
          (inputs(''labels'' \<mapsto> labels)) ''input_ids'' = Some input_ids \<and>
          length input_ids = length transcriptions \<and> list_all (\<lambda>x. length x = 512) input_ids \<and>
          length labels = length descriptions \<and> list_all (\<lambda>x. length x = 128) labels))"
proof (intro conjI allI impI)
  show "(preprocess_function L tokenizer_g examples w = (Inr enc, w')) =
      (\<exists>tok transcriptions descriptions inputs w1 outputs labels.
        tokenizer_g = Some tok \<and>
        examples ''transcription'' = Some transcriptions \<and>
        examples ''description'' = Some descriptions \<and>
        tokenizer_call L tok transcriptions 512 True ''max_length'' w = (Inr inputs, w1) \<and>
        tokenizer_call L tok descriptions 128 True ''max_length'' w1 = (Inr outputs, w') \<and>
        outputs ''input_ids'' = Some labels \<and>
        enc = inputs(''labels'' \<mapsto> labels))"
    by (rule preprocess_function_run)
next
  fix tok transcriptions descriptions inputs w1 outputs
  assume a: "tokenizer_g = Some tok \<and>
        examples ''transcription'' = Some transcriptions \<and>
        examples ''description'' = Some descriptions \<and>
        tokenizer_call L tok transcriptions 512 True ''max_length'' w = (Inr inputs, w1) \<and>
        tokenizer_call L tok descriptions 128 True ''max_length'' w1 = (Inr outputs, w')"
  from assms a obtain input_ids where i:
    "inputs ''input_ids'' = Some input_ids" "length input_ids = length transcriptions"
    "list_all (\<lambda>x. length x = 512) input_ids"
    unfolding pads_to_max_length_def by blast
  from assms a obtain labels where l:
    "outputs ''input_ids'' = Some labels" "length labels = length descriptions"
    "list_all (\<lambda>x. length x = 128) labels"
    unfolding pads_to_max_length_def by blast
  from a l(1) have "preprocess_function L tokenizer_g examples w = (Inr (inputs(''labels'' \<mapsto> labels)), w')"
    by (simp add: preprocess_function_def)
  moreover from i(1) have "(inputs(''labels'' \<mapsto> labels)) ''input_ids'' = Some input_ids"
    by simp
  ultimately show "\<exists>input_ids labels.
          preprocess_function L tokenizer_g examples w = (Inr (inputs(''labels'' \<mapsto> labels)), w') \<and>
          outputs ''input_ids'' = Some labels \<and>
          (inputs(''labels'' \<mapsto> labels)) ''input_ids'' = Some input_ids \<and>
          length input_ids = length transcriptions \<and> list_all (\<lambda>x. length x = 512) input_ids \<and>
          length labels = length descriptions \<and> list_all (\<lambda>x. length x = 128) labels"
    using i l by blast
qed

lemma sim_pads: "pads_to_max_length (sim_lib None)"
  by (auto simp: pads_to_max_length_def sim_lib_sel guard_None list_all_iff)

lemma sim_tokenizer_calls:
  "tokenizer_call (sim_lib None) (Name ''tok'') [Name ''a'', Name ''b''] 512 True ''max_length'' 0 =
    (Inr [''input_ids'' \<mapsto> [replicate 512 0, replicate 512 0],
          ''attention_mask'' \<mapsto> [replicate 512 1, replicate 512 1]], 1)"
  "tokenizer_call (sim_lib None) (Name ''tok'') [Name ''c'', Name ''d''] 128 True ''max_length'' 1 =
    (Inr [''input_ids'' \<mapsto> [replicate 128 0, replicate 128 0],
          ''attention_mask'' \<mapsto> [replicate 128 1, replicate 128 1]], 2)"
  by (simp_all add: sim_lib_sel guard_None numeral_2_eq_2)

lemma sim_encoding_eq:
  "[''input_ids'' \<mapsto> [replicate 512 0, replicate 512 0],
    ''attention_mask'' \<mapsto> [replicate 512 1, replicate 512 (1::int)],
    ''labels'' \<mapsto> labels] = sim_encoding(''labels'' \<mapsto> labels)"
  by (simp add: sim_encoding_def)

text \<open>
  The hypotheses of C7 hold for the simulated library on a batch of two examples: the
  function returns, with two input sequences of 512 ids and two label sequences of 128.
\<close>

theorem preprocess_function_lengths_witness:
  "pads_to_max_length (sim_lib None) \<and>
   preprocess_function (sim_lib None) (Some (Name ''tok'')) sim_examples 0 = (Inr sim_encoding, 2) \<and>
   sim_encoding ''input_ids'' = Some [replicate 512 0, replicate 512 0] \<and>
   sim_encoding ''labels'' = Some [replicate 128 0, replicate 128 0]"
proof -
  let ?inputs = "[''input_ids'' \<mapsto> [replicate 512 0, replicate 512 0],
          ''attention_mask'' \<mapsto> [replicate 512 1, replicate 512 (1::int)]]"
  let ?outputs = "[''input_ids'' \<mapsto> [replicate 128 0, replicate 128 0],
          ''attention_mask'' \<mapsto> [replicate 128 1, replicate 128 (1::int)]]"
  have "Some (Name ''tok'') = Some (Name ''tok'') \<and>
        sim_examples ''transcription'' = Some [Name ''a'', Name ''b''] \<and>
        sim_examples ''description'' = Some [Name ''c'', Name ''d''] \<and>
        tokenizer_call (sim_lib None) (Name ''tok'') [Name ''a'', Name ''b''] 512 True ''max_length'' 0 =
          (Inr ?inputs, 1) \<and>
        tokenizer_call (sim_lib None) (Name ''tok'') [Name ''c'', Name ''d''] 128 True ''max_length'' 1 =
          (Inr ?outputs, 2)"
    using sim_tokenizer_calls by (simp add: sim_examples_def)
  from preprocess_function_lengths [OF sim_pads, of "Some (Name ''tok'')" sim_examples 0 sim_encoding 2,
      THEN conjunct2, rule_format, OF this]
  obtain input_ids labels where r:
    "preprocess_function (sim_lib None) (Some (Name ''tok'')) sim_examples 0 =
      (Inr (?inputs(''labels'' \<mapsto> labels)), 2)"
    "?outputs ''input_ids'' = Some labels"
    "(?inputs(''labels'' \<mapsto> labels)) ''input_ids'' = Some input_ids"
    by (elim exE conjE)
  from r(2) have "labels = [replicate 128 0, replicate 128 0]"
    by simp
  with r(1) have "preprocess_function (sim_lib None) (Some (Name ''tok'')) sim_examples 0 = (Inr sim_encoding, 2)"
    by (simp add: sim_encoding_def)
  then show ?thesis
    using sim_pads by (simp add: sim_encoding_def)
qed

subsection \<open>compute_metrics\<close>

lemma metrics_dict:
  "(\<lambda>k. map_option (\<lambda>v. num_round L v 4)
      (((\<lambda>key. map_option (\<lambda>v. num_mul L (fmeasure (mid v)) 100) (rouge_raw key)) ++
        [''bleu'' \<mapsto> score bleu]) k)) =
   (\<lambda>key. if key = ''bleu'' then Some (num_round L (score bleu) 4)
          else map_option (\<lambda>v. num_round L (num_mul L (fmeasure (mid v)) 100) 4) (rouge_raw key))"
  by (rule ext) (simp add: map_add_def option.map_comp comp_def)

lemma metrics_dict_iff:
  "(result =
     (\<lambda>key. if key = ''bleu'' then Some (num_round L (score bleu) 4)
            else map_option (\<lambda>v. num_round L (num_mul L (fmeasure (mid v)) 100) 4) (rouge_raw key))) =
   (result ''bleu'' = Some (num_round L (score bleu) 4) \<and>
    (\<forall>key. key \<noteq> ''bleu'' \<longrightarrow>
       result key = map_option (\<lambda>v. num_round L (num_mul L (fmeasure (mid v)) 100) 4) (rouge_raw key)))"
  by (auto simp: fun_eq_iff)

lemma compute_metrics_run:
  "(compute_metrics L tokenizer_g rouge_metric_g sacrebleu_g (predictions, labels) w = (Inr result, w')) =
    (\<exists>tok rouge decoded_preds w1 decoded_labels w2 rouge_raw w3 bleu.
      tokenizer_g = Some tok \<and> rouge_metric_g = Some rouge \<and> sacrebleu_g \<and>
      batch_decode L tok predictions True w = (Inr decoded_preds, w1) \<and>
      batch_decode L tok labels True w1 = (Inr decoded_labels, w2) \<and>
      rouge_compute L rouge decoded_preds decoded_labels True w2 = (Inr rouge_raw, w3) \<and>
      corpus_bleu L decoded_preds [decoded_labels] w3 = (Inr bleu, w') \<and>
      result ''bleu'' = Some (num_round L (score bleu) 4) \<and>
      (\<forall>key. key \<noteq> ''bleu'' \<longrightarrow>
         result key =
           map_option (\<lambda>v. num_round L (num_mul L (fmeasure (mid v)) 100) 4) (rouge_raw key)))"
  unfolding compute_metrics_def Let_def metrics_dict metrics_dict_iff [symmetric]
  by (auto split: option.splits prod.splits sum.splits)

lemma metrics_dom:
  assumes "result ''bleu'' = Some b"
    and "\<forall>key. key \<noteq> ''bleu'' \<longrightarrow> result key = map_option f (rouge_raw key)"
  shows "dom result = insert ''bleu'' (dom rouge_raw)"
proof -
  have "(result key \<noteq> None) = (key = ''bleu'' \<or> rouge_raw key \<noteq> None)" for key
    using assms by (cases "key = ''bleu''") auto
  then show ?thesis
    by (auto simp: dom_def)
qed

text \<open>
  Claim C1, as amended. \<open>compute_metrics\<close> returns a dictionary exactly when the globals
  \<open>tokenizer\<close>, \<open>rouge_metric\<close> and \<open>sacrebleu\<close> are bound and the four library calls
  return: decoding the predictions and then the labels with \<open>skip_special_tokens=True\<close>,
  ROUGE over the decoded predictions and references with \<open>use_stemmer=True\<close>, BLEU over the
  same. The dictionary holds one value for every key of the ROUGE result and one under
  \<open>bleu\<close>: how many values there are is the library's choice, not three. The value under
  \<open>bleu\<close> is \<open>round(score, 4)\<close> of the BLEU score, and the value under a ROUGE key is
  \<open>round(fmeasure * 100, 4)\<close> of the mid f-measure.
\<close>

theorem compute_metrics_values:
  "(compute_metrics L tokenizer_g rouge_metric_g sacrebleu_g (predictions, labels) w = (Inr result, w')) =
    (\<exists>tok rouge decoded_preds w1 decoded_labels w2 rouge_raw w3 bleu.
      tokenizer_g = Some tok \<and> rouge_metric_g = Some rouge \<and> sacrebleu_g \<and>
      batch_decode L tok predictions True w = (Inr decoded_preds, w1) \<and>
      batch_decode L tok labels True w1 = (Inr decoded_labels, w2) \<and>
      rouge_compute L rouge decoded_preds decoded_labels True w2 = (Inr rouge_raw, w3) \<and>
      corpus_bleu L decoded_preds [decoded_labels] w3 = (Inr bleu, w') \<and>
      dom result = insert ''bleu'' (dom rouge_raw) \<and>
      result ''bleu'' = Some (num_round L (score bleu) 4) \<and>
      (\<forall>key. key \<noteq> ''bleu'' \<longrightarrow>
         result key =
           map_option (\<lambda>v. num_round L (num_mul L (fmeasure (mid v)) 100) 4) (rouge_raw key)))"
  (is "?returns = ?calls")
proof
  assume ?returns
  then obtain tok rouge decoded_preds w1 decoded_labels w2 rouge_raw w3 bleu where r:
    "tokenizer_g = Some tok" "rouge_metric_g = Some rouge" "sacrebleu_g"
    "batch_decode L tok predictions True w = (Inr decoded_preds, w1)"
    "batch_decode L tok labels True w1 = (Inr decoded_labels, w2)"
    "rouge_compute L rouge decoded_preds decoded_labels True w2 = (Inr rouge_raw, w3)"
    "corpus_bleu L decoded_preds [decoded_labels] w3 = (Inr bleu, w')"
    "result ''bleu'' = Some (num_round L (score bleu) 4)"
    "\<forall>key. key \<noteq> ''bleu'' \<longrightarrow>
       result key = map_option (\<lambda>v. num_round L (num_mul L (fmeasure (mid v)) 100) 4) (rouge_raw key)"
    unfolding compute_metrics_run by (elim exE conjE)
  from metrics_dom [OF r(8) r(9)] r show ?calls
    by (intro exI conjI)
next
  assume ?calls
  then show ?returns
    unfolding compute_metrics_run by (elim exE conjE) (intro exI conjI)
qed

lemma round_half_even_bounds: "\<lfloor>x\<rfloor> \<le> round_half_even x \<and> round_half_even x \<le> \<lfloor>x\<rfloor> + 1"
  by (simp add: round_half_even_def Let_def)

lemma round_half_even_mono:
  assumes "x \<le> y"
  shows "round_half_even x \<le> round_half_even y"
proof (cases "\<lfloor>x\<rfloor> = \<lfloor>y\<rfloor>")
  case True
  with assms show ?thesis
    by (auto simp: round_half_even_def Let_def)
next
  case False
  with assms have "\<lfloor>x\<rfloor> + 1 \<le> \<lfloor>y\<rfloor>"
    using floor_mono [of x y] by linarith
  with round_half_even_bounds [of x] round_half_even_bounds [of y] show ?thesis
    by linarith
qed

lemma decimal_round_mono: "x \<le> y \<Longrightarrow> decimal_round x 4 \<le> decimal_round y 4"
  by (simp add: decimal_round_def divide_right_mono round_half_even_mono)

lemma decimal_round_examples:
  "decimal_round sim_bleu 4 = 100"
  "decimal_round (100 / 3) 4 = 333333 / 10000"
  "decimal_round 100 4 = 100"
  "decimal_round 0 4 = 0"
  "decimal_round 50 4 = 50"
  by (simp_all add: decimal_round_def round_half_even_def sim_bleu_def Let_def)

lemma sim_rouge_key:
  "sim_rouge key =
    (if key = ''rougeLsum'' then Some (sim_aggregate (1 / 2))
     else if key = ''rougeL'' then Some (sim_aggregate 0)
     else if key = ''rouge2'' then Some (sim_aggregate 1)
     else if key = ''rouge1'' then Some (sim_aggregate (1 / 3))
     else None)"
  by (simp add: sim_rouge_def)

lemma sim_metrics_key:
  "sim_metrics key =
    (if key = ''bleu'' then Some (Number 100)
     else if key = ''rougeLsum'' then Some (Number 50)
     else if key = ''rougeL'' then Some (Number 0)
     else if key = ''rouge2'' then Some (Number 100)
     else if key = ''rouge1'' then Some (Number (333333 / 10000))
     else None)"
  by (simp add: sim_metrics_def)

lemma sim_metrics_rouge:
  "key \<noteq> ''bleu'' \<Longrightarrow>
    sim_metrics key =
      map_option (\<lambda>v. num_round (sim_lib None) (num_mul (sim_lib None) (fmeasure (mid v)) 100) 4)
        (sim_rouge key)"
  by (simp add: sim_metrics_key sim_rouge_key sim_lib_sel sim_aggregate_def sim_score_def
      decimal_round_examples)

lemma sim_metrics_bleu:
  "sim_metrics ''bleu'' = Some (num_round (sim_lib None) (score \<lparr>score = Number sim_bleu\<rparr>) 4)"
  by (simp add: sim_metrics_key sim_lib_sel decimal_round_examples)

lemma sim_metrics_dom:
  "dom sim_metrics = {''rouge1'', ''rouge2'', ''rougeL'', ''rougeLsum'', ''bleu''}"
  by (simp add: sim_metrics_def insert_commute)

lemma sim_calls:
  "batch_decode (sim_lib None) tok ids True w = (Inr [''text''], Suc w)"
  "rouge_compute (sim_lib None) rouge preds refs True w = (Inr sim_rouge, Suc w)"
  "corpus_bleu (sim_lib None) preds refss w = (Inr \<lparr>score = Number sim_bleu\<rparr>, Suc w)"
  by (simp_all add: sim_lib_sel guard_None)

lemma sim_compute_metrics:
  "compute_metrics (sim_lib None) (Some tok) (Some rouge) True (predictions, labels) w =
    (Inr sim_metrics, Suc (Suc (Suc (Suc w))))"
  unfolding compute_metrics_run
  using sim_calls sim_metrics_bleu sim_metrics_rouge
  by (intro exI conjI allI impI) (simp_all only: simp_thms)

text \<open>
  The right-hand side of C1 (amended) holds for the simulated library, whose ROUGE metric
  returns the four keys \<open>rouge1\<close>, \<open>rouge2\<close>, \<open>rougeL\<close>, \<open>rougeLsum\<close>: the function returns
  a dictionary of five values.
\<close>

theorem compute_metrics_values_witness:
  "compute_metrics (sim_lib None) (Some (Name ''tok'')) (Some (Name ''rouge'')) True
      (Name ''predictions'', Name ''labels'') 0 = (Inr sim_metrics, 4) \<and>
   dom sim_metrics = {''rouge1'', ''rouge2'', ''rougeL'', ''rougeLsum'', ''bleu''} \<and>
   sim_metrics ''bleu'' = Some (Number 100) \<and>
   sim_metrics ''rouge1'' = Some (Number (333333 / 10000))"
proof -
  have "\<exists>tok rouge decoded_preds w1 decoded_labels w2 rouge_raw w3 bleu.
      Some (Name ''tok'') = Some tok \<and> Some (Name ''rouge'') = Some rouge \<and> True \<and>
      batch_decode (sim_lib None) tok (Name ''predictions'') True 0 = (Inr decoded_preds, w1) \<and>
      batch_decode (sim_lib None) tok (Name ''labels'') True w1 = (Inr decoded_labels, w2) \<and>
      rouge_compute (sim_lib None) rouge decoded_preds decoded_labels True w2 = (Inr rouge_raw, w3) \<and>
      corpus_bleu (sim_lib None) decoded_preds [decoded_labels] w3 = (Inr bleu, 4) \<and>
      dom sim_metrics = insert ''bleu'' (dom rouge_raw) \<and>
      sim_metrics ''bleu'' = Some (num_round (sim_lib None) (score bleu) 4) \<and>
      (\<forall>key. key \<noteq> ''bleu'' \<longrightarrow>
         sim_metrics key =
           map_option (\<lambda>v. num_round (sim_lib None) (num_mul (sim_lib None) (fmeasure (mid v)) 100) 4)
             (rouge_raw key))"
  proof (intro exI conjI allI impI)
    show "batch_decode (sim_lib None) (Name ''tok'') (Name ''predictions'') True 0 = (Inr [''text''], 1)"
      by (simp add: sim_calls)
    show "batch_decode (sim_lib None) (Name ''tok'') (Name ''labels'') True 1 = (Inr [''text''], 2)"
      by (simp add: sim_calls)
    show "rouge_compute (sim_lib None) (Name ''rouge'') [''text''] [''text''] True 2 = (Inr sim_rouge, 3)"
      by (simp add: sim_calls)
    show "corpus_bleu (sim_lib None) [''text''] [[''text'']] 3 = (Inr \<lparr>score = Number sim_bleu\<rparr>, 4)"
      by (simp add: sim_calls)
    show "dom sim_metrics = insert ''bleu'' (dom sim_rouge)"
      by (simp add: sim_metrics_def sim_rouge_def insert_commute)
    show "sim_metrics ''bleu'' = Some (num_round (sim_lib None) (score \<lparr>score = Number sim_bleu\<rparr>) 4)"
      by (rule sim_metrics_bleu)
    show "sim_metrics key =
           map_option (\<lambda>v. num_round (sim_lib None) (num_mul (sim_lib None) (fmeasure (mid v)) 100) 4)
             (sim_rouge key)" if "key \<noteq> ''bleu''" for key
      using that by (rule sim_metrics_rouge)
  qed simp_all
  then have "compute_metrics (sim_lib None) (Some (Name ''tok'')) (Some (Name ''rouge'')) True
      (Name ''predictions'', Name ''labels'') 0 = (Inr sim_metrics, 4)"
    by (rule compute_metrics_values [THEN iffD2])
  then show ?thesis
    by (simp add: sim_metrics_dom sim_metrics_key)
qed

text \<open>
  Claim C1 as stated fails: with a ROUGE metric that returns four keys, as the default
  one does, \<open>compute_metrics\<close> returns five values, not three.
\<close>

theorem three_metric_values_counterexample:
  "\<exists>result w'. compute_metrics (sim_lib None) (Some (Name ''tok'')) (Some (Name ''rouge'')) True
      (Name ''predictions'', Name ''labels'') 0 = (Inr result, w') \<and>
    card (dom result) = 5 \<and> card (dom result) \<noteq> 3"
  using sim_compute_metrics [of "Name ''tok''" "Name ''rouge''" "Name ''predictions''" "Name ''labels''" 0]
    sim_metrics_dom
  by simp

text \<open>
  Claim C8. Read the numbers as reals by any valuation \<open>val\<close>. Suppose that rounding to
  four digits is monotone and sends a number \<open>lo\<close> at or below 0 to 0 and a number \<open>hi\<close>
  at or above 100 to 100, and that multiplying a number between 0 and 1 by 100 gives a
  number between 0 and 100 (\<open>rounds_onto_scale\<close>); and suppose that the ROUGE f-measures
  the library returns lie between 0 and 1 and its BLEU scores between \<open>lo\<close> and \<open>hi\<close>
  (\<open>scores_in_range\<close>: a score a rounding error above 100 is allowed). Then
  \<open>compute_metrics\<close> returns a dictionary exactly when the three globals are bound and the
  four library calls return; its value under a ROUGE key is the mid f-measure times 100,
  rounded, its value under \<open>bleu\<close> is the library's score, rounded; and every value of the
  dictionary lies in the closed interval from 0 to 100.
\<close>

theorem compute_metrics_range:
  assumes "rounds_onto_scale L val lo hi" and "scores_in_range L val lo hi"
  shows "((compute_metrics L tokenizer_g rouge_metric_g sacrebleu_g (predictions, labels) w =
        (Inr result, w')) =
      (\<exists>tok rouge decoded_preds w1 decoded_labels w2 rouge_raw w3 bleu.
        tokenizer_g = Some tok \<and> rouge_metric_g = Some rouge \<and> sacrebleu_g \<and>
        batch_decode L tok predictions True w = (Inr decoded_preds, w1) \<and>
        batch_decode L tok labels True w1 = (Inr decoded_labels, w2) \<and>
        rouge_compute L rouge decoded_preds decoded_labels True w2 = (Inr rouge_raw, w3) \<and>
        corpus_bleu L decoded_preds [decoded_labels] w3 = (Inr bleu, w') \<and>
        result ''bleu'' = Some (num_round L (score bleu) 4) \<and>
        (\<forall>key. key \<noteq> ''bleu'' \<longrightarrow>
           result key =
             map_option (\<lambda>v. num_round L (num_mul L (fmeasure (mid v)) 100) 4) (rouge_raw key)))) \<and>
    (compute_metrics L tokenizer_g rouge_metric_g sacrebleu_g (predictions, labels) w =
        (Inr result, w') \<longrightarrow>
      (\<forall>key v. result key = Some v \<longrightarrow> 0 \<le> val v \<and> val v \<le> 100))"
proof (rule conjI)
  show "(compute_metrics L tokenizer_g rouge_metric_g sacrebleu_g (predictions, labels) w =
        (Inr result, w')) =
      (\<exists>tok rouge decoded_preds w1 decoded_labels w2 rouge_raw w3 bleu.
        tokenizer_g = Some tok \<and> rouge_metric_g = Some rouge \<and> sacrebleu_g \<and>
        batch_decode L tok predictions True w = (Inr decoded_preds, w1) \<and>
        batch_decode L tok labels True w1 = (Inr decoded_labels, w2) \<and>
        rouge_compute L rouge decoded_preds decoded_labels True w2 = (Inr rouge_raw, w3) \<and>
        corpus_bleu L decoded_preds [decoded_labels] w3 = (Inr bleu, w') \<and>
        result ''bleu'' = Some (num_round L (score bleu) 4) \<and>
        (\<forall>key. key \<noteq> ''bleu'' \<longrightarrow>
           result key =
             map_option (\<lambda>v. num_round L (num_mul L (fmeasure (mid v)) 100) 4) (rouge_raw key)))"
    by (rule compute_metrics_run)
next
  show "compute_metrics L tokenizer_g rouge_metric_g sacrebleu_g (predictions, labels) w =
        (Inr result, w') \<longrightarrow>
      (\<forall>key v. result key = Some v \<longrightarrow> 0 \<le> val v \<and> val v \<le> 100)"
  proof (intro impI allI)
  fix key v
  assume "compute_metrics L tokenizer_g rouge_metric_g sacrebleu_g (predictions, labels) w =
        (Inr result, w')"
    and v: "result key = Some v"
  then obtain tok rouge decoded_preds w1 decoded_labels w2 rouge_raw w3 bleu where r:
    "rouge_compute L rouge decoded_preds decoded_labels True w2 = (Inr rouge_raw, w3)"
    "corpus_bleu L decoded_preds [decoded_labels] w3 = (Inr bleu, w')"
    "result ''bleu'' = Some (num_round L (score bleu) 4)"
    "\<forall>key. key \<noteq> ''bleu'' \<longrightarrow>
       result key = map_option (\<lambda>v. num_round L (num_mul L (fmeasure (mid v)) 100) 4) (rouge_raw key)"
    and "batch_decode L tok predictions True w = (Inr decoded_preds, w1)"
    unfolding compute_metrics_run by (elim exE conjE)
  from assms(1) have lo: "val lo \<le> 0" "val (num_round L lo 4) = 0"
    and hi: "100 \<le> val hi" "val (num_round L hi 4) = 100"
    and mono: "\<And>x y. val x \<le> val y \<Longrightarrow> val (num_round L x 4) \<le> val (num_round L y 4)"
    and mul: "\<And>x. 0 \<le> val x \<Longrightarrow> val x \<le> 1 \<Longrightarrow>
      0 \<le> val (num_mul L x 100) \<and> val (num_mul L x 100) \<le> 100"
    unfolding rounds_onto_scale_def by blast+
  have window: "0 \<le> val (num_round L x 4) \<and> val (num_round L x 4) \<le> 100"
    if "val lo \<le> val x" "val x \<le> val hi" for x
    using mono [OF that(1)] mono [OF that(2)] lo(2) hi(2) by simp
  show "0 \<le> val v \<and> val v \<le> 100"
  proof (cases "key = ''bleu''")
    case True
    with v r(3) have "v = num_round L (score bleu) 4"
      by simp
    moreover from assms(2) r(2) have "val lo \<le> val (score bleu) \<and> val (score bleu) \<le> val hi"
      unfolding scores_in_range_def by blast
    ultimately show ?thesis
      using window by blast
  next
    case False
    with v r(4) obtain a where a: "rouge_raw key = Some a"
      "v = num_round L (num_mul L (fmeasure (mid a)) 100) 4"
      by auto
    from assms(2) r(1) a(1) have "0 \<le> val (fmeasure (mid a)) \<and> val (fmeasure (mid a)) \<le> 1"
      unfolding scores_in_range_def by blast
    then have "0 \<le> val (num_mul L (fmeasure (mid a)) 100) \<and> val (num_mul L (fmeasure (mid a)) 100) \<le> 100"
      using mul by blast
    with lo(1) hi(1) have "val lo \<le> val (num_mul L (fmeasure (mid a)) 100)"
      "val (num_mul L (fmeasure (mid a)) 100) \<le> val hi"
      by linarith+
    from window [OF this] a(2) show ?thesis
      by simp
  qed
  qed
qed

lemma sim_rounds_onto_scale:
  "rounds_onto_scale (sim_lib None) value_of (Number 0) (Number sim_bleu)"
  unfolding rounds_onto_scale_def sim_lib_sel value_of.simps
  by (intro conjI allI impI)
    (simp_all add: decimal_round_examples decimal_round_mono, simp add: sim_bleu_def)

lemma sim_scores_in_range:
  "scores_in_range (sim_lib None) value_of (Number 0) (Number sim_bleu)"
  unfolding scores_in_range_def sim_lib_sel guard_None
  by (intro conjI allI impI)
    (auto simp: sim_rouge_key sim_aggregate_def sim_score_def sim_bleu_def split: if_splits)

text \<open>
  The hypotheses of C8 hold for the simulated library, whose BLEU score is
  \<open>100.00000000000004\<close> and whose ROUGE f-measures include 0 and 1: the values
  returned reach both ends of the interval.
\<close>

theorem compute_metrics_range_witness:
  "rounds_onto_scale (sim_lib None) value_of (Number 0) (Number sim_bleu) \<and>
   scores_in_range (sim_lib None) value_of (Number 0) (Number sim_bleu) \<and>
   compute_metrics (sim_lib None) (Some (Name ''tok'')) (Some (Name ''rouge'')) True
      (Name ''predictions'', Name ''labels'') 0 = (Inr sim_metrics, 4) \<and>
   sim_metrics ''bleu'' = Some (Number 100) \<and>
   0 \<le> value_of (Number 100) \<and> value_of (Number 100) \<le> 100 \<and>
   sim_metrics ''rougeL'' = Some (Number 0) \<and>
   0 \<le> value_of (Number 0) \<and> value_of (Number 0) \<le> 100"
proof -
  note run = sim_compute_metrics [of "Name ''tok''" "Name ''rouge''" "Name ''predictions''" "Name ''labels''" 0]
  note range = compute_metrics_range [OF sim_rounds_onto_scale sim_scores_in_range,
      THEN conjunct2, rule_format, OF run]
  have b: "sim_metrics ''bleu'' = Some (Number 100)" and l: "sim_metrics ''rougeL'' = Some (Number 0)"
    by (simp_all add: sim_metrics_key)
  from range [OF b] range [OF l] b l run sim_rounds_onto_scale sim_scores_in_range
  show ?thesis
    by (simp add: numeral_eq_Suc)
qed

subsection \<open>The log of a run that ends\<close>













lemma resolve_DeviceNameD: "resolve L tr (DeviceName j) \<noteq> None \<Longrightarrow> \<exists>v. returned tr j = Some (RBool v)"
  by (simp split: option.splits ret.splits)









subsection \<open>Every run\<close>















subsection \<open>C4: the order of the operations\<close>


subsection \<open>C5: errors of the libraries\<close>


subsection \<open>C2: the files and columns read\<close>


subsection \<open>C6: the datasets\<close>


subsection \<open>C9: the splits given to the trainer\<close>


subsection \<open>C3: the training arguments\<close>


subsection \<open>The notebook on the simulated library\<close>










end
